theory Spec2Isabelle
  imports Main "HOL-Library.Char_ord" "HOL-Library.List_Lexorder"
begin

section \<open>Python values\<close>

text \<open>
  The program is one Python module, \<^verbatim>\<open>dev-server.py\<close>: a constant \<^verbatim>\<open>PORT\<close>, the class
  \<^verbatim>\<open>NoCacheHTTPRequestHandler\<close> with two overridden methods, and a script body under
  \<^verbatim>\<open>if __name__ == '__main__'\<close>. The class extends the standard library's
  \<^verbatim>\<open>http.server.SimpleHTTPRequestHandler\<close>; the methods it inherits and the methods that call
  its overrides are embedded from CPython's \<^verbatim>\<open>Lib/http/server.py\<close> (3.11 and 3.12 agree on
  every line used here).

  Text that reaches the socket or the log is Latin-1: the request line is decoded as
  \<^verbatim>\<open>iso-8859-1\<close> and the literals are ASCII. It is modelled by \<open>string\<close>, whose characters are
  the 256 code points of Latin-1, so that \<^verbatim>\<open>encode('latin-1', 'strict')\<close> is the identity and
  cannot raise. Text printed on standard output holds code points beyond Latin-1 and is a list
  of code points.
\<close>

type_synonym bytes = string

type_synonym ustr = "nat list"

datatype py_exception =
    NameError string
  | TypeError string
  | ValueError string
  | AttributeError string
  | OSError string
  | KeyboardInterrupt
  | SystemExit nat

definition CRLF :: string where
  "CRLF = [CHR 0x0D, CHR 0x0A]"

definition ustr_of :: "string \<Rightarrow> ustr" where
  "ustr_of = map of_char"

text \<open>\<^verbatim>\<open>str.lower\<close> on Latin-1 text: the letters A to Z and the accented capitals
  0xC0 to 0xDE (the multiplication sign 0xD7 apart) move up by 32.\<close>

definition lower_char :: "char \<Rightarrow> char" where
  "lower_char c =
     (let n = (of_char c :: nat)
      in if (65 \<le> n \<and> n \<le> 90) \<or> (192 \<le> n \<and> n \<le> 222 \<and> n \<noteq> 215)
         then char_of (n + 32) else c)"

definition lower :: "string \<Rightarrow> string" where
  "lower = map lower_char"

text \<open>\<^verbatim>\<open>str(n)\<close> and \<^verbatim>\<open>%d\<close> for a natural number.\<close>

fun decimal :: "nat \<Rightarrow> string" where
  "decimal n =
     (if n < 10 then [''0123456789'' ! n]
      else decimal (n div 10) @ [''0123456789'' ! (n mod 10)])"

declare decimal.simps [simp del]

text \<open>
  The operator \<^verbatim>\<open>format % args\<close> with a tuple of arguments. The program's format strings use
  the conversions \<^verbatim>\<open>%s\<close> and \<^verbatim>\<open>%d\<close> only; \<^verbatim>\<open>%%\<close> is the literal percent sign. Too few or
  too many arguments raise \<^verbatim>\<open>TypeError\<close>, as does \<^verbatim>\<open>%d\<close> on a string; any other conversion
  is outside this model and is reported as a \<^verbatim>\<open>ValueError\<close>.
\<close>

datatype arg = S string | D nat

fun py_format :: "string \<Rightarrow> arg list \<Rightarrow> py_exception + string" where
  "py_format [] [] = Inr []"
| "py_format [] (a # as) =
     Inl (TypeError ''not all arguments converted during string formatting'')"
| "py_format [c] as =
     (if c = CHR ''%'' then Inl (ValueError ''incomplete format'')
      else map_sum id (Cons c) (py_format [] as))"
| "py_format (c # d # cs) as =
     (if c \<noteq> CHR ''%'' then map_sum id (Cons c) (py_format (d # cs) as)
      else if d = CHR ''%'' then map_sum id (Cons c) (py_format cs as)
      else if d = CHR ''s'' then
        (case as of
           [] \<Rightarrow> Inl (TypeError ''not enough arguments for format string'')
         | S x # as' \<Rightarrow> map_sum id (append x) (py_format cs as')
         | D n # as' \<Rightarrow> map_sum id (append (decimal n)) (py_format cs as'))
      else if d = CHR ''d'' then
        (case as of
           [] \<Rightarrow> Inl (TypeError ''not enough arguments for format string'')
         | S x # as' \<Rightarrow> Inl (TypeError ''%d format: a real number is required, not str'')
         | D n # as' \<Rightarrow> map_sum id (append (decimal n)) (py_format cs as'))
      else Inl (ValueError ''unsupported format character''))"

text \<open>Sequencing of statements that may raise: the first exception ends the sequence.\<close>

definition and_then :: "py_exception + 'a \<Rightarrow> ('a \<Rightarrow> py_exception + 'b) \<Rightarrow> py_exception + 'b" where
  "and_then r f = (case r of Inl exc \<Rightarrow> Inl exc | Inr x \<Rightarrow> f x)"


section \<open>The module's global names\<close>

text \<open>
  \<^verbatim>\<open>
  import http.server
  import socketserver
  from datetime import datetime

  PORT = 8080

  class NoCacheHTTPRequestHandler(http.server.SimpleHTTPRequestHandler): ...

  if __name__ == '__main__':
      import sys
      with socketserver.TCPServer(("", PORT), NoCacheHTTPRequestHandler) as httpd:
  \<close>
  The names the module's top level has bound when the server is constructed, given the value
  of \<^verbatim>\<open>__name__\<close>. A method of the class looks a global name up in this namespace when it
  runs; a name that is neither there nor a builtin raises \<^verbatim>\<open>NameError\<close>.
\<close>

type_synonym globals = "string list"

definition PORT :: nat where
  "PORT = 8080"

definition module_globals :: "string \<Rightarrow> globals" where
  "module_globals name =
     [''__name__'', ''http'', ''socketserver'', ''datetime'', ''PORT'',
      ''NoCacheHTTPRequestHandler'']
     @ (if name = ''__main__'' then [''sys''] else [])"


section \<open>The request handler\<close>

subsection \<open>State\<close>

text \<open>
  The attributes of one handler instance that the methods below read or assign, the bytes
  written to the connection (\<open>wfile\<close>, one element per \<^verbatim>\<open>write\<close> call), and the text written
  to the process's standard error (\<open>stderr\<close>, one element per \<^verbatim>\<open>write\<close> call).
  \<open>headers_buffer\<close> is \<open>None\<close> while the instance has no attribute \<^verbatim>\<open>_headers_buffer\<close>.
  The request's header fields are keyed by their name in lower case, as the message class
  looks them up without regard to case.
\<close>

record handler =
  client_address :: string
  requestline :: string
  request_version :: string
  command :: "string option"
  path :: string
  headers :: "string \<Rightarrow> string option"
  close_connection :: bool
  headers_buffer :: "bytes list option"
  wfile :: "bytes list"
  stderr :: "string list"

text \<open>
  What the handler takes from the clock, the interpreter and the file system. These are
  results of library and system calls the program does not define; the model is parametric
  in them. A file is its content and its modification time.
\<close>

record env =
  log_date_time_string :: string
  date_time_string :: "nat option \<Rightarrow> string"
  version_string :: string
  responses :: "nat \<Rightarrow> (string \<times> string) option"
  repr :: "string \<Rightarrow> string"
  error_content :: "nat \<Rightarrow> string \<Rightarrow> string \<Rightarrow> bytes"
  translate_path :: "string \<Rightarrow> string"
  isdir :: "string \<Rightarrow> bool"
  isfile :: "string \<Rightarrow> bool"
  join :: "string \<Rightarrow> string \<Rightarrow> string"
  open_rb :: "string \<Rightarrow> (bytes \<times> nat) option"
  guess_type :: "string \<Rightarrow> string"
  urlsplit_path :: "string \<Rightarrow> string"
  redirect_url :: "string \<Rightarrow> string"
  listing :: "string \<Rightarrow> string \<Rightarrow> bytes option"
  filesystemencoding :: string
  not_modified_since :: "string \<Rightarrow> nat \<Rightarrow> bool"

subsection \<open>Inherited header methods\<close>


definition buffered :: "handler \<Rightarrow> bytes list" where
  "buffered h = (case headers_buffer h of None \<Rightarrow> [] | Some b \<Rightarrow> b)"


definition header_line :: "string \<Rightarrow> string \<Rightarrow> bytes" where
  "header_line keyword v = keyword @ '': '' @ v @ CRLF"


definition send_header :: "string \<Rightarrow> string \<Rightarrow> handler \<Rightarrow> handler" where
  "send_header keyword v h =
     (let h1 = (if request_version h \<noteq> ''HTTP/0.9''
                then h\<lparr>headers_buffer := Some (buffered h @ [header_line keyword v])\<rparr>
                else h)
      in if lower keyword = ''connection'' then
           (if lower v = ''close'' then h1\<lparr>close_connection := True\<rparr>
            else if lower v = ''keep-alive'' then h1\<lparr>close_connection := False\<rparr>
            else h1)
         else h1)"

definition flush_headers :: "handler \<Rightarrow> handler" where
  "flush_headers h =
     (case headers_buffer h of
        None \<Rightarrow> h
      | Some b \<Rightarrow> h\<lparr>wfile := wfile h @ [concat b], headers_buffer := Some []\<rparr>)"

definition base_end_headers :: "handler \<Rightarrow> py_exception + handler" where
  "base_end_headers h =
     (if request_version h \<noteq> ''HTTP/0.9'' then
        (case headers_buffer h of
           None \<Rightarrow> Inl (AttributeError ''_headers_buffer'')
         | Some b \<Rightarrow> Inr (flush_headers (h\<lparr>headers_buffer := Some (b @ [CRLF])\<rparr>)))
      else Inr h)"

subsection \<open>The overrides of NoCacheHTTPRequestHandler\<close>

text \<open>
  \<^verbatim>\<open>
  def end_headers(self):
      self.send_header('Cache-Control', 'no-store, no-cache, must-revalidate, max-age=0')
      self.send_header('Pragma', 'no-cache')
      self.send_header('Expires', '0')
      super().end_headers()
  \<close>
\<close>

definition end_headers :: "handler \<Rightarrow> py_exception + handler" where
  "end_headers h =
     base_end_headers
       (send_header ''Expires'' ''0''
         (send_header ''Pragma'' ''no-cache''
           (send_header ''Cache-Control'' ''no-store, no-cache, must-revalidate, max-age=0'' h)))"

text \<open>The three header lines as they stand in the transmitted header block.\<close>

definition no_cache_headers :: "bytes list" where
  "no_cache_headers =
     [''Cache-Control: no-store, no-cache, must-revalidate, max-age=0'' @ CRLF,
      ''Pragma: no-cache'' @ CRLF,
      ''Expires: 0'' @ CRLF]"

text \<open>
  \<^verbatim>\<open>
  def log_message(self, format, *args):
      sys.stderr.write("%s - - [%s] %s\n" %
                       (self.address_string(),
                        self.log_date_time_string(),
                        format % args))
  \<close>
  The call evaluates \<^verbatim>\<open>sys.stderr.write\<close> first, so an unbound \<^verbatim>\<open>sys\<close> raises before the
  message is formatted. \<^verbatim>\<open>address_string()\<close> is \<^verbatim>\<open>self.client_address[0]\<close>.
\<close>

definition address_string :: "handler \<Rightarrow> string" where
  "address_string h = client_address h"

definition log_message :: "globals \<Rightarrow> env \<Rightarrow> string \<Rightarrow> arg list \<Rightarrow> handler \<Rightarrow> py_exception + handler" where
  "log_message g e format args h =
     (if ''sys'' \<notin> set g then Inl (NameError ''sys'')
      else and_then (py_format format args) (\<lambda>message.
           and_then (py_format ''%s - - [%s] %s\<newline>''
                       [S (address_string h), S (log_date_time_string e), S message]) (\<lambda>line.
           Inr (h\<lparr>stderr := stderr h @ [line]\<rparr>))))"


subsection \<open>Inherited logging and response methods\<close>






subsection \<open>Inherited request parsing\<close>










definition endswith :: "string \<Rightarrow> string \<Rightarrow> bool" where
  "endswith s suf = (length suf \<le> length s \<and> drop (length s - length suf) s = suf)"












subsection \<open>Inherited file serving\<close>







text \<open>A handler as the server creates it for a connection from the given client address;
  the attributes that \<^verbatim>\<open>handle_one_request\<close> assigns before it reads them are empty.\<close>

definition new_handler :: "string \<Rightarrow> handler" where
  "new_handler addr =
     \<lparr>client_address = addr, requestline = [], request_version = [], command = None,
      path = [], headers = (\<lambda>k. None), close_connection = True, headers_buffer = None,
      wfile = [], stderr = []\<rparr>"

text \<open>The log line of a message, the two messages the inherited methods log, and the test
  that a transmitted header block ends with the three no-cache lines and the empty line.\<close>

definition log_line :: "env \<Rightarrow> handler \<Rightarrow> string \<Rightarrow> string" where
  "log_line e h message =
     address_string h @ '' - - ['' @ log_date_time_string e @ ''] '' @ message @ ''\<newline>''"

definition request_summary :: "handler \<Rightarrow> nat \<Rightarrow> string" where
  "request_summary h code = ''\"'' @ requestline h @ ''\" '' @ decimal code @ '' -''"




section \<open>The script\<close>

text \<open>
  \<^verbatim>\<open>
  if __name__ == '__main__':
      import sys

      with socketserver.TCPServer(("", PORT), NoCacheHTTPRequestHandler) as httpd:
          print(f"<U+1F680> Dev server running at http://localhost:{PORT}")
          print(f"<U+1F4C1> Serving from: {httpd.server_address}")
          print(f"<U+26A1> No-cache headers enabled - images/CSS will always reload fresh")
          print(f"Press Ctrl+C to stop\n")

          try:
              httpd.serve_forever()
          except KeyboardInterrupt:
              print("\n\n<U+2705> Server stopped")
              sys.exit(0)
  \<close>
  The process as an observer sees it: the text on standard output, the address the server
  listens on (\<open>None\<close> when it has no listening socket), the exception the interpreter reports
  with a traceback on standard error, and the exit status (\<open>None\<close> while the process runs).
  Request handlers write to the connection and to standard error only, so standard output
  holds what the script prints and nothing else. Standard output is taken to accept every
  text that is printed.
\<close>

record process =
  stdout :: ustr
  listening :: "(string \<times> nat) option"
  traceback :: "py_exception option"
  exit_status :: "nat option"

definition py_print :: "ustr \<Rightarrow> process \<Rightarrow> process" where
  "py_print x p = p\<lparr>stdout := stdout p @ x @ [10]\<rparr>"

text \<open>
  The constructor of \<^verbatim>\<open>socketserver.TCPServer\<close> creates a TCP stream socket, binds it to the
  given address and listens; binding raises \<^verbatim>\<open>OSError\<close> when the address is in use (the
  operating system decides that: \<open>in_use\<close>). The empty host name binds all interfaces, and
  \<^verbatim>\<open>server_address\<close> is then what \<^verbatim>\<open>getsockname()\<close> reports, the host \<^verbatim>\<open>0.0.0.0\<close>.
\<close>

definition getsockname :: "string \<times> nat \<Rightarrow> string \<times> nat" where
  "getsockname a = (if fst a = [] then ''0.0.0.0'' else fst a, snd a)"

definition TCPServer :: "(string \<times> nat \<Rightarrow> bool) \<Rightarrow> string \<times> nat \<Rightarrow> py_exception + string \<times> nat" where
  "TCPServer in_use a =
     (if in_use a then Inl (OSError ''Address already in use'') else Inr (getsockname a))"

text \<open>Leaving the \<^verbatim>\<open>with\<close> block, normally or by an exception, calls \<^verbatim>\<open>server_close()\<close>.\<close>

definition server_close :: "process \<Rightarrow> process" where
  "server_close p = p\<lparr>listening := None\<rparr>"

text \<open>
  An exception that leaves the script ends the process: \<^verbatim>\<open>SystemExit(n)\<close> silently with
  status \<open>n\<close>; an interrupt nobody caught kills the process by the signal, which a shell
  reports as 130; any other exception with a traceback and status 1.
\<close>

definition finish :: "py_exception \<Rightarrow> process \<Rightarrow> process" where
  "finish exc p =
     (case exc of
        SystemExit n \<Rightarrow> p\<lparr>exit_status := Some n\<rparr>
      | KeyboardInterrupt \<Rightarrow> p\<lparr>traceback := Some exc, exit_status := Some 130\<rparr>
      | _ \<Rightarrow> p\<lparr>traceback := Some exc, exit_status := Some 1\<rparr>)"

text \<open>
  The formatted value of \<^verbatim>\<open>httpd.server_address\<close>, a pair of a host name and a port: the
  host in single quotes (it holds no quote, backslash or control character), the port in
  decimal.
\<close>

definition str_of_address :: "string \<times> nat \<Rightarrow> string" where
  "str_of_address a =
     ''('' @ [CHR 0x27] @ fst a @ [CHR 0x27] @ '', '' @ decimal (snd a) @ '')''"

definition banner_url :: ustr where
  "banner_url = [0x1F680] @ ustr_of ('' Dev server running at http://localhost:'' @ decimal PORT)"

definition banner_serving :: "string \<times> nat \<Rightarrow> ustr" where
  "banner_serving a = [0x1F4C1] @ ustr_of ('' Serving from: '' @ str_of_address a)"

definition banner_no_cache :: ustr where
  "banner_no_cache =
     [0x26A1] @ ustr_of '' No-cache headers enabled - images/CSS will always reload fresh''"

definition banner_stop :: ustr where
  "banner_stop = ustr_of ''Press Ctrl+C to stop\<newline>''"

definition stopped :: ustr where
  "stopped = ustr_of ''\<newline>\<newline>'' @ [0x2705] @ ustr_of '' Server stopped''"

text \<open>
  The script, given the command line, the operating system's answer to a bind, and how
  \<^verbatim>\<open>serve_forever()\<close> ends: \<open>None\<close> when it keeps serving, \<open>Some exc\<close> when it raises \<open>exc\<close>
  (an interrupt signal raises \<^verbatim>\<open>KeyboardInterrupt\<close> in the main thread).
\<close>

definition script :: "string list \<Rightarrow> (string \<times> nat \<Rightarrow> bool) \<Rightarrow> py_exception option \<Rightarrow> process" where
  "script argv in_use served =
     (let p0 = \<lparr>stdout = [], listening = None, traceback = None, exit_status = None\<rparr>
      in case TCPServer in_use ([], PORT) of
           Inl exc \<Rightarrow> finish exc p0
         | Inr a \<Rightarrow>
             (let p1 = py_print banner_stop
                        (py_print banner_no_cache
                          (py_print (banner_serving a)
                            (py_print banner_url (p0\<lparr>listening := Some a\<rparr>))))
              in case served of
                   None \<Rightarrow> p1
                 | Some exc \<Rightarrow>
                     (if exc = KeyboardInterrupt
                      then finish (SystemExit 0) (server_close (py_print stopped p1))
                      else finish exc (server_close p1))))"

text \<open>The lines of a text: each newline ends a line, and text after the last newline is a
  line of its own.\<close>

fun lines_of :: "ustr \<Rightarrow> ustr list" where
  "lines_of [] = []"
| "lines_of (c # cs) =
     (if c = 10 then [] # lines_of cs
      else (case lines_of cs of [] \<Rightarrow> [[c]] | l # ls \<Rightarrow> (c # l) # ls))"


section \<open>What the methods write\<close>

text \<open>
  Names for the effects that the properties below speak of. \<open>buffer_lines\<close> is the effect of
  calls that put lines into the header buffer, \<open>transmit\<close> the effect of the overridden
  \<^verbatim>\<open>end_headers\<close> after such calls, \<open>request_logged\<close> the effect of \<^verbatim>\<open>log_request\<close>, and
  \<open>append_wfile\<close> that of writing to the connection. For a request version of HTTP/0.9 nothing
  is buffered and nothing is transmitted.
\<close>

definition buffer_lines :: "bytes list \<Rightarrow> handler \<Rightarrow> handler" where
  "buffer_lines ls h =
     (if request_version h = ''HTTP/0.9'' then h
      else h\<lparr>headers_buffer := Some (buffered h @ ls)\<rparr>)"

definition transmit :: "bytes list \<Rightarrow> handler \<Rightarrow> handler" where
  "transmit ls h =
     (if request_version h = ''HTTP/0.9'' then h
      else h\<lparr>wfile := wfile h @ [concat (buffered h @ ls @ no_cache_headers @ [CRLF])],
             headers_buffer := Some []\<rparr>)"

definition append_wfile :: "bytes list \<Rightarrow> handler \<Rightarrow> handler" where
  "append_wfile chunks h = h\<lparr>wfile := wfile h @ chunks\<rparr>"

definition request_logged :: "env \<Rightarrow> nat \<Rightarrow> handler \<Rightarrow> handler" where
  "request_logged e code h = h\<lparr>stderr := stderr h @ [log_line e h (request_summary h code)]\<rparr>"

















section \<open>An example environment\<close>

text \<open>
  A working directory \<^verbatim>\<open>/srv\<close> that holds the one file \<^verbatim>\<open>index.html\<close>, a clock, and
  example values for what the library computes. The theorems hold for every environment;
  this one gives the concrete inputs of the examples below.
\<close>

definition example_env :: env where
  "example_env =
     \<lparr>log_date_time_string = ''04/Nov/2026 10:00:00'',
      date_time_string =
        (\<lambda>t. case t of None \<Rightarrow> ''Wed, 04 Nov 2026 10:00:00 GMT''
                      | Some s \<Rightarrow> ''Sun, 01 Nov 2026 00:00:00 GMT''),
      version_string = ''SimpleHTTP/0.6 Python/3.12.3'',
      responses =
        (\<lambda>code. if code = 200 then Some (''OK'', ''Request fulfilled, document follows'')
                 else if code = 304
                   then Some (''Not Modified'', ''Document has not changed since given time'')
                 else if code = 404 then Some (''Not Found'', ''Nothing matches the given URI'')
                 else if code = 501
                   then Some (''Not Implemented'', ''Server does not support this operation'')
                 else None),
      repr = (\<lambda>s. [CHR 0x27] @ s @ [CHR 0x27]),
      error_content = (\<lambda>code message explain. ''<p>Error code: '' @ decimal code @ ''</p>''),
      translate_path = (\<lambda>p. ''/srv'' @ p),
      isdir = (\<lambda>p. p = ''/srv/''),
      isfile = (\<lambda>p. p = ''/srv/index.html''),
      join = (\<lambda>a b. a @ b),
      open_rb =
        (\<lambda>p. if p = ''/srv/index.html'' then Some (''<h1>Hello</h1>'', 1793491200) else None),
      guess_type =
        (\<lambda>p. if endswith p ''.html'' then ''text/html'' else ''application/octet-stream''),
      urlsplit_path = (\<lambda>p. p),
      redirect_url = (\<lambda>p. p @ ''/''),
      listing = (\<lambda>p q. Some ''<ul></ul>''),
      filesystemencoding = ''utf-8'',
      not_modified_since =
        (\<lambda>since mtime. since = ''Sun, 01 Nov 2026 00:00:00 GMT'' \<and> mtime \<le> 1793491200)\<rparr>"






definition client :: handler where
  "client = new_handler ''127.0.0.1''"


section \<open>Properties\<close>

subsection \<open>Evaluation lemmas\<close>

lemma lower_Cache_Control: "lower ''Cache-Control'' = ''cache-control''"
  by code_simp

lemma lower_Pragma: "lower ''Pragma'' = ''pragma''"
  by code_simp

lemma lower_Expires: "lower ''Expires'' = ''expires''"
  by code_simp

lemma send_header_plain:
  "lower keyword \<noteq> ''connection'' \<Longrightarrow> request_version h \<noteq> ''HTTP/0.9'' \<Longrightarrow>
   send_header keyword v h = h\<lparr>headers_buffer := Some (buffered h @ [header_line keyword v])\<rparr>"
  by (simp add: send_header_def)

lemma send_header_09:
  "lower keyword \<noteq> ''connection'' \<Longrightarrow> request_version h = ''HTTP/0.9'' \<Longrightarrow>
   send_header keyword v h = h"
  by (simp add: send_header_def)

lemma end_headers_block:
  assumes "request_version h \<noteq> ''HTTP/0.9''"
  shows "end_headers h =
     Inr (h\<lparr>wfile := wfile h @ [concat (buffered h @ no_cache_headers @ [CRLF])],
            headers_buffer := Some []\<rparr>)"
  using assms
  by (simp add: end_headers_def send_header_plain lower_Cache_Control lower_Pragma lower_Expires
      base_end_headers_def flush_headers_def buffered_def no_cache_headers_def header_line_def)

lemma end_headers_09:
  assumes "request_version h = ''HTTP/0.9''"
  shows "end_headers h = Inr h"
  using assms
  by (simp add: end_headers_def send_header_09 lower_Cache_Control lower_Pragma lower_Expires
      base_end_headers_def)

lemma PORT_text: "decimal PORT = ''8080''"
  by (simp add: PORT_def decimal.simps[of 8080] decimal.simps[of 808] decimal.simps[of 80]
      decimal.simps[of 8])

lemma stdout_serving:
  "\<not> in_use ([], PORT) \<Longrightarrow>
   stdout (script argv in_use None) =
     banner_url @ [10] @ banner_serving (''0.0.0.0'', PORT) @ [10] @ banner_no_cache @ [10]
       @ banner_stop @ [10]"
  by (simp add: script_def TCPServer_def py_print_def getsockname_def Let_def)

lemma stdout_interrupted:
  "\<not> in_use ([], PORT) \<Longrightarrow>
   stdout (script argv in_use (Some KeyboardInterrupt)) =
     stdout (script argv in_use None) @ stopped @ [10]"
  by (simp add: script_def TCPServer_def py_print_def finish_def server_close_def Let_def)

lemma lines_of_line: "10 \<notin> set l \<Longrightarrow> lines_of (l @ 10 # rest) = l # lines_of rest"
  by (induction l) auto

lemma banner_url_one_line: "10 \<notin> set banner_url"
  by (simp add: banner_url_def ustr_of_def PORT_text)

lemma banner_serving_one_line: "10 \<notin> set (banner_serving (''0.0.0.0'', PORT))"
  by (simp add: banner_serving_def ustr_of_def PORT_text str_of_address_def)

lemma banner_no_cache_one_line: "10 \<notin> set banner_no_cache"
  by (simp add: banner_no_cache_def ustr_of_def)

lemma banner_stop_lines: "banner_stop = ustr_of ''Press Ctrl+C to stop'' @ [10]"
  by (simp add: banner_stop_def ustr_of_def)

lemma press_one_line: "10 \<notin> set (ustr_of ''Press Ctrl+C to stop'')"
  by (simp add: ustr_of_def)

lemma lines_of_stopped:
  "lines_of (stopped @ [10]) = [[], [], 0x2705 # ustr_of '' Server stopped'']"
  by (simp add: stopped_def ustr_of_def)

lemma lines_of_banner:
  "lines_of (banner_url @ [10] @ banner_serving (''0.0.0.0'', PORT) @ [10] @ banner_no_cache
     @ [10] @ banner_stop @ [10] @ rest) =
   [banner_url, banner_serving (''0.0.0.0'', PORT), banner_no_cache,
    ustr_of ''Press Ctrl+C to stop'', []] @ lines_of rest"
  using lines_of_line[OF banner_url_one_line] lines_of_line[OF banner_serving_one_line]
    lines_of_line[OF banner_no_cache_one_line] lines_of_line[OF press_one_line]
  by (simp add: banner_stop_lines)

subsection \<open>Closed forms of the inherited methods\<close>

lemma lower_Server: "lower ''Server'' = ''server''"
  by code_simp

lemma lower_Date: "lower ''Date'' = ''date''"
  by code_simp

lemma lower_Connection: "lower ''Connection'' = ''connection''"
  by code_simp

lemma lower_close: "lower ''close'' = ''close''"
  by code_simp

lemma lower_Content_Type: "lower ''Content-Type'' = ''content-type''"
  by code_simp

lemma lower_Content_type: "lower ''Content-type'' = ''content-type''"
  by code_simp

lemma lower_Content_Length: "lower ''Content-Length'' = ''content-length''"
  by code_simp

lemma lower_Last_Modified: "lower ''Last-Modified'' = ''last-modified''"
  by code_simp

lemma lower_Location: "lower ''Location'' = ''location''"
  by code_simp

lemmas lower_literals = lower_Cache_Control lower_Pragma lower_Expires lower_Server lower_Date
  lower_Connection lower_close lower_Content_Type lower_Content_type lower_Content_Length
  lower_Last_Modified lower_Location


lemma send_header_Connection_close:
  "send_header ''Connection'' ''close'' h =
     (buffer_lines [header_line ''Connection'' ''close''] h)\<lparr>close_connection := True\<rparr>"
  by (simp add: send_header_def buffer_lines_def lower_literals)


lemma buffer_lines_close:
  "buffer_lines b ((buffer_lines a h)\<lparr>close_connection := c\<rparr>) = (buffer_lines (a @ b) h)\<lparr>close_connection := c\<rparr>"
  by (simp add: buffer_lines_def buffered_def)


lemma end_headers_buffer_close:
  "end_headers ((buffer_lines ls h)\<lparr>close_connection := c\<rparr>) = Inr ((transmit ls h)\<lparr>close_connection := c\<rparr>)"
  by (cases "request_version h = ''HTTP/0.9''")
     (simp_all add: end_headers_block end_headers_09 buffer_lines_def transmit_def buffered_def)





lemma log_line_stderr [simp]: "log_line e (h\<lparr>stderr := s\<rparr>) m = log_line e h m"
  by (simp add: log_line_def address_string_def)

lemma request_summary_stderr [simp]: "request_summary (h\<lparr>stderr := s\<rparr>) c = request_summary h c"
  by (simp add: request_summary_def)






lemma transmit_simps [simp]:
  "client_address (transmit ls h) = client_address h"
  "requestline (transmit ls h) = requestline h"
  "request_version (transmit ls h) = request_version h"
  "command (transmit ls h) = command h"
  "path (transmit ls h) = path h"
  "headers (transmit ls h) = headers h"
  "stderr (transmit ls h) = stderr h"
  "close_connection (transmit ls h) = close_connection h"
  "wfile (transmit ls h) =
     (if request_version h = ''HTTP/0.9'' then wfile h
      else wfile h @ [concat (buffered h @ ls @ no_cache_headers @ [CRLF])])"
  by (simp_all add: transmit_def)

lemma append_wfile_simps [simp]:
  "client_address (append_wfile b h) = client_address h"
  "requestline (append_wfile b h) = requestline h"
  "request_version (append_wfile b h) = request_version h"
  "command (append_wfile b h) = command h"
  "stderr (append_wfile b h) = stderr h"
  "wfile (append_wfile b h) = wfile h @ b"
  by (simp_all add: append_wfile_def)





lemma request_logged_simps [simp]:
  "client_address (request_logged e code h) = client_address h"
  "requestline (request_logged e code h) = requestline h"
  "request_version (request_logged e code h) = request_version h"
  "command (request_logged e code h) = command h"
  "path (request_logged e code h) = path h"
  "headers (request_logged e code h) = headers h"
  "wfile (request_logged e code h) = wfile h"
  "buffered (request_logged e code h) = buffered h"
  "stderr (request_logged e code h) = stderr h @ [log_line e h (request_summary h code)]"
  by (simp_all add: request_logged_def buffered_def)














subsection \<open>Every request is answered in one of a few ways\<close>













subsection \<open>What a request leaves behind, in closed form\<close>






subsection \<open>The example requests, evaluated\<close>


























subsection \<open>The example environment, by its fields\<close>



subsection \<open>Responses\<close>




subsection \<open>The access log\<close>




subsection \<open>Files\<close>







subsection \<open>Start, bind failure and shutdown\<close>

text \<open>
  C5: if the port is already bound when the server starts, the constructor raises the bind
  error before anything is printed; nothing catches it, so the interpreter reports it with a
  traceback and the process ends with status 1.
\<close>

theorem bind_failure_exits_nonzero:
  "in_use ([], PORT) \<Longrightarrow>
   script argv in_use served =
     \<lparr>stdout = [], listening = None,
      traceback = Some (OSError ''Address already in use''), exit_status = Some 1\<rparr>"
  by (simp add: script_def TCPServer_def finish_def)

theorem bind_failure_exits_nonzero_witness:
  "script [''dev-server.py''] (\<lambda>a. a = ([], 8080)) None =
     \<lparr>stdout = [], listening = None,
      traceback = Some (OSError ''Address already in use''), exit_status = Some 1\<rparr>
   \<and> exit_status (script [''dev-server.py''] (\<lambda>a. a = ([], 8080)) None) \<noteq> Some 0"
  using bind_failure_exits_nonzero[of "\<lambda>a. a = ([], 8080)" "[''dev-server.py'']" None]
  by (simp add: PORT_def)

text \<open>
  C6: while the server serves, it listens and the process runs; an interrupt raised in
  \<^verbatim>\<open>serve_forever()\<close> is caught, the confirmation is printed after what was printed before,
  the listening socket is closed on the way out of the \<^verbatim>\<open>with\<close> block, no traceback is
  reported and the exit status is 0.
\<close>

theorem interrupt_stops_with_status_0:
  "\<not> in_use ([], PORT) \<Longrightarrow>
   listening (script argv in_use None) = Some (''0.0.0.0'', PORT)
   \<and> exit_status (script argv in_use None) = None
   \<and> script argv in_use (Some KeyboardInterrupt) =
       \<lparr>stdout = stdout (script argv in_use None) @ stopped @ [10], listening = None,
        traceback = None, exit_status = Some 0\<rparr>"
  by (simp add: script_def TCPServer_def py_print_def finish_def server_close_def
      getsockname_def Let_def)

theorem interrupt_stops_with_status_0_witness:
  "exit_status (script [] (\<lambda>a. False) (Some KeyboardInterrupt)) = Some 0
   \<and> listening (script [] (\<lambda>a. False) (Some KeyboardInterrupt)) = None
   \<and> traceback (script [] (\<lambda>a. False) (Some KeyboardInterrupt)) = None
   \<and> lines_of (stopped @ [10]) = [[], [], 0x2705 # ustr_of '' Server stopped'']"
  using interrupt_stops_with_status_0[of "\<lambda>a. False" "[]"]
  by (simp add: lines_of_stopped)

text \<open>
  C7, as the claim states it, fails: the start prints four banner lines and an empty line,
  not three lines.
\<close>

theorem three_banner_lines_counterexample:
  "length (lines_of (stdout (script [] (\<lambda>a. False) None))) = 5
   \<and> lines_of (stdout (script [] (\<lambda>a. False) None)) ! 3 = ustr_of ''Press Ctrl+C to stop''"
  using lines_of_banner[of "[]"]
  by (simp add: stdout_serving)

text \<open>
  C7, amended: at startup the program prints exactly four banner lines (the server URL, a
  \<^verbatim>\<open>Serving from:\<close> line, the no-cache notice and the hint \<^verbatim>\<open>Press Ctrl+C to stop\<close>) and
  one empty line; when it is interrupted it prints two empty lines and exactly one
  confirmation line after them.
\<close>

theorem banner_and_shutdown_lines:
  "\<not> in_use ([], PORT) \<Longrightarrow>
   lines_of (stdout (script argv in_use None)) =
     [banner_url, banner_serving (''0.0.0.0'', PORT), banner_no_cache,
      ustr_of ''Press Ctrl+C to stop'', []]
   \<and> lines_of (stdout (script argv in_use (Some KeyboardInterrupt))) =
     [banner_url, banner_serving (''0.0.0.0'', PORT), banner_no_cache,
      ustr_of ''Press Ctrl+C to stop'', [],
      [], [], 0x2705 # ustr_of '' Server stopped'']"
  using lines_of_banner[of "[]"] lines_of_banner[of "stopped @ [10]"]
  by (simp add: stdout_interrupted stdout_serving lines_of_stopped)

theorem banner_and_shutdown_lines_witness:
  "length (lines_of (stdout (script [''dev-server.py''] (\<lambda>a. False) None))) = 5
   \<and> length (lines_of (stdout (script [''dev-server.py''] (\<lambda>a. False) (Some KeyboardInterrupt)))) = 8
   \<and> last (lines_of (stdout (script [''dev-server.py''] (\<lambda>a. False) (Some KeyboardInterrupt))))
       = 0x2705 # ustr_of '' Server stopped''"
  using banner_and_shutdown_lines[of "\<lambda>a. False" "[''dev-server.py'']"]
  by simp

text \<open>
  C8: the script binds a TCP server to the empty host name, which is every interface, and to
  the constant port 8080. The command line plays no part, and of the operating system's
  state only whether that one address is in use does.
\<close>

theorem fixed_port_all_interfaces:
  "in_use' ([], 8080) = in_use ([], 8080) \<Longrightarrow>
   PORT = 8080
   \<and> script argv in_use served = script argv' in_use' served
   \<and> TCPServer in_use ([], PORT) =
       (if in_use ([], 8080) then Inl (OSError ''Address already in use'')
        else Inr (''0.0.0.0'', 8080))
   \<and> listening (script argv in_use None) =
       (if in_use ([], 8080) then None else Some (''0.0.0.0'', 8080))"
  by (simp add: script_def TCPServer_def py_print_def finish_def getsockname_def
      PORT_def Let_def)

theorem fixed_port_all_interfaces_witness:
  "script [''dev-server.py'', ''--port'', ''9000''] (\<lambda>a. a = ([], 9000)) None
     = script [] (\<lambda>a. False) None
   \<and> listening (script [''dev-server.py'', ''--port'', ''9000''] (\<lambda>a. a = ([], 9000)) None)
     = Some (''0.0.0.0'', 8080)"
  using fixed_port_all_interfaces[of "\<lambda>a. False" "\<lambda>a. a = ([], 9000)"
      "[''dev-server.py'', ''--port'', ''9000'']" None "[]", simplified]
  by blast

subsection \<open>The overrides\<close>

text \<open>
  C9, as the claim states it, fails for a handler whose request version is HTTP/0.9 (a request
  line without a version, or one rejected before its version is accepted): there
  \<^verbatim>\<open>send_header\<close> buffers nothing, so the override appends nothing and writes nothing.
  The handler below is the one that parsing the request line \<^verbatim>\<open>GET /index.html\<close> leaves.
\<close>

theorem end_headers_appends_counterexample:
  "end_headers
     \<lparr>client_address = ''127.0.0.1'', requestline = ''GET /index.html'',
      request_version = ''HTTP/0.9'', command = Some ''GET'', path = ''/index.html'',
      headers = (\<lambda>k. None), close_connection = True, headers_buffer = None, wfile = [],
      stderr = []\<rparr>
   = Inr \<lparr>client_address = ''127.0.0.1'', requestline = ''GET /index.html'',
      request_version = ''HTTP/0.9'', command = Some ''GET'', path = ''/index.html'',
      headers = (\<lambda>k. None), close_connection = True, headers_buffer = None, wfile = [],
      stderr = []\<rparr>"
  by (simp add: end_headers_09)

text \<open>
  C9, amended: unless the request version is HTTP/0.9, the override transmits one header
  block that holds every line the handler had buffered (the status line and the headers
  prepared so far), unchanged and in their order, then the lines Cache-Control, Pragma and
  Expires in this order, then the empty line; it changes nothing else of the handler, and
  never raises. For HTTP/0.9 it leaves the handler as it is.
\<close>

theorem end_headers_appends_after_prepared:
  "end_headers h =
     Inr (if request_version h = ''HTTP/0.9'' then h
          else h\<lparr>wfile := wfile h @ [concat (buffered h @ no_cache_headers @ [CRLF])],
                 headers_buffer := Some []\<rparr>)"
  by (simp add: end_headers_block end_headers_09)

text \<open>
  C10: \<^verbatim>\<open>sys\<close> is bound only under the \<^verbatim>\<open>__main__\<close> guard. When the module runs under any
  other name, \<^verbatim>\<open>log_message\<close> raises \<^verbatim>\<open>NameError\<close> for every format, arguments and handler,
  and writes nothing; run as a script the name is bound.
\<close>

theorem log_message_name_error:
  "name \<noteq> ''__main__'' \<Longrightarrow>
   log_message (module_globals name) e format args h = Inl (NameError ''sys'')
   \<and> ''sys'' \<in> set (module_globals ''__main__'')"
  by (simp add: log_message_def module_globals_def)

theorem log_message_name_error_witness:
  "''dev_server'' \<noteq> ''__main__''
   \<and> log_message (module_globals ''dev_server'') example_env ''\"%s\" %s %s''
       [S ''GET / HTTP/1.1'', S ''200'', S ''-''] client = Inl (NameError ''sys'')"
  using log_message_name_error[of "''dev_server''" example_env "''\"%s\" %s %s''"
      "[S ''GET / HTTP/1.1'', S ''200'', S ''-'']" client]
  by simp

end
